theory Spec2Isabelle
  imports Main
begin

section \<open>Values, exceptions and collaborators\<close>

text \<open>
  The module \<open>nkms/policy/models.py\<close> is embedded function by function. Python
  \<open>bytes\<close> are byte lists (\<open>char\<close> is a byte). Values whose type the code leaves
  open (an expiration, a deposit, what msgpack packs and unpacks) are values of \<open>py\<close>;
  a tuple and a list are both \<open>PyList\<close>, as msgpack packs both as an array and
  unpacks a list.
\<close>

type_synonym bytes = string

datatype py = PyNone | PyInt int | PyBytes bytes | PyList "py list"

text \<open>
  A key fragment is the sentinel \<open>UNKNOWN_KFRAG\<close> or a \<open>KFrag\<close> built from its
  serialized bytes; a ciphertext fragment is a \<open>PFrag\<close> built from bytes, and
  \<open>bytes(p)\<close> gives them back.
\<close>

datatype kfrag = UNKNOWN_KFRAG | KFrag bytes

datatype pfrag = PFrag (pfrag_bytes: bytes)

text \<open>
  Exceptions are values. The first group are the exceptions the module can raise
  (Python's own, the payload splitter's, msgpack's, the network client's). The last
  three are names of the
  specification's error taxonomy that no function of the module raises; they are
  constructors so that statements about them can be written.
\<close>

datatype error =
    KeyError kfrag
  | AttributeError string
  | TypeError string
  | ValueError string
  | MalformedPayload
  | UnpackError
  | PeerUnreachable
  | UnverifiedSender
  | IncompletePolicy "nat list"
  | EnactmentFailed

text \<open>
  \<open>raise ValueError("This doesn't appear to be from Bob.")\<close> in
  \<open>WorkOrder.from_rest_payload\<close>: the exception the specification calls
  UnauthenticatedOrder.
\<close>

definition UnauthenticatedOrder :: error where
  "UnauthenticatedOrder = ValueError ''This doesn't appear to be from Bob.''"

text \<open>
  An actor (Alice, Bob, Ursula). \<open>seal_bytes\<close> is \<open>bytes(actor.seal)\<close>, the public
  signing key; \<open>known_actors\<close> are the public keys registered by
  \<open>learn_about_actor\<close>.
\<close>

record actor =
  seal_bytes :: bytes
  known_actors :: "bytes list"

text \<open>
  Modelled from the spec: \<open>from_pubkey_sig_bytes\<close> of the identity actor (module
  \<open>nkms.characters\<close>, not among the sources): the actor resolved from a public key
  alone.
\<close>

definition from_pubkey_sig_bytes :: "bytes \<Rightarrow> actor" where
  "from_pubkey_sig_bytes pk = \<lparr>seal_bytes = pk, known_actors = []\<rparr>"

text \<open>
  Modelled from the spec: \<open>learn_about_actor\<close> of the identity actor (module
  \<open>nkms.characters\<close>): the registration of another actor with this one, kept as its
  public key.
\<close>

definition learn_about_actor :: "actor \<Rightarrow> actor \<Rightarrow> actor" where
  "learn_about_actor self other = self\<lparr>known_actors := seal_bytes other # known_actors self\<rparr>"

text \<open>
  What the module imports and calls but does not define is a parameter: the hash,
  the widths of the fixed-width fields, signing (\<open>actor.seal(message)\<close>) and
  \<open>signature.verify(message, pubkey)\<close>, \<open>encrypt_for\<close> (ciphertext and signature),
  \<open>verify_from\<close> (verified flag and cleartext), msgpack and a proxy's discovery
  identifier.
\<close>

record collaborators =
  keccak_digest :: "bytes \<Rightarrow> bytes"
  signature_length :: nat
  public_key_length :: nat
  kfrag_length :: nat
  kfrag_to_bytes :: "kfrag \<Rightarrow> bytes"
  seal_call :: "actor \<Rightarrow> bytes \<Rightarrow> bytes"
  signature_verify :: "bytes \<Rightarrow> bytes \<Rightarrow> bytes \<Rightarrow> bool"
  encrypt_for :: "actor \<Rightarrow> actor option \<Rightarrow> bytes \<Rightarrow> py \<times> bytes"
  verify_from :: "actor \<Rightarrow> actor \<Rightarrow> py \<Rightarrow> bool \<times> bytes"
  msgpack_dumps :: "py \<Rightarrow> bytes"
  msgpack_loads :: "bytes \<Rightarrow> error + py"
  interface_dht_key :: "actor \<Rightarrow> bytes"

subsection \<open>The payload splitter\<close>

text \<open>
  Modelled from the spec: the slicing of the binary payload codec (module
  \<open>nkms.crypto.utils\<close>, not among the sources): a leading sequence of fixed-width
  fields in the given order, then the remainder.
\<close>

fun split_fields :: "nat list \<Rightarrow> bytes \<Rightarrow> bytes list \<times> bytes" where
  "split_fields [] bs = ([], bs)"
| "split_fields (n # ns) bs =
     (case split_fields ns (drop n bs) of (fs, r) \<Rightarrow> (take n bs # fs, r))"

text \<open>
  Modelled from the spec: \<open>BytestringSplitter\<close>, the binary payload codec: it fails
  with MalformedPayload when the payload is shorter than the sum of the widths of its
  fields, and splits otherwise.
\<close>

definition BytestringSplitter :: "nat list \<Rightarrow> bytes \<Rightarrow> error + bytes list \<times> bytes" where
  "BytestringSplitter widths bs =
     (if length bs < sum_list widths then Inl MalformedPayload
      else Inr (split_fields widths bs))"

section \<open>Contract\<close>

record contract =
  c_alice :: actor
  c_expiration :: py
  c_deposit :: py
  c_ursula :: "actor option"
  c_kfrag :: kfrag
  c_encrypted_challenge_pack :: "bytes option"
  c_negotiation_result :: "py option"

text \<open>
  \<open>Contract.__init__(self, alice, expiration, deposit=None, ursula=None,
  kfrag=UNKNOWN_KFRAG, alices_signature=None, encrypted_challenge_pack=None)\<close>.
  The arguments stand in the order of the signature. \<open>alice\<close> and \<open>expiration\<close> have
  no default: \<open>None\<close> for one of them is a call that does not supply it, which Python
  refuses with a TypeError. For the others \<open>None\<close> (\<open>PyNone\<close> for the deposit) is the
  default. \<open>alices_signature\<close> is accepted and not stored. The attribute
  \<open>negotiation_result\<close> does not exist (\<open>None\<close>) until \<open>activate\<close> sets it.
\<close>

definition Contract_init ::
  "actor option \<Rightarrow> py option \<Rightarrow> py \<Rightarrow> actor option \<Rightarrow> kfrag option \<Rightarrow> bytes option \<Rightarrow>
   bytes option \<Rightarrow> error + contract" where
  "Contract_init alice expiration deposit ursula kfrag alices_signature encrypted_challenge_pack =
     (case alice of
        None \<Rightarrow> Inl (TypeError ''__init__() missing 1 required positional argument: alice'')
      | Some a \<Rightarrow>
          (case expiration of
             None \<Rightarrow> Inl (TypeError ''__init__() missing 1 required positional argument: expiration'')
           | Some e \<Rightarrow>
               Inr \<lparr>c_alice = a, c_expiration = e, c_deposit = deposit, c_ursula = ursula,
                    c_kfrag = (case kfrag of None \<Rightarrow> UNKNOWN_KFRAG | Some k \<Rightarrow> k),
                    c_encrypted_challenge_pack = encrypted_challenge_pack,
                    c_negotiation_result = None\<rparr>))"

definition activate :: "contract \<Rightarrow> kfrag \<Rightarrow> actor \<Rightarrow> py \<Rightarrow> contract" where
  "activate self kfrag ursula negotiation_result =
     self\<lparr>c_kfrag := kfrag, c_ursula := Some ursula,
          c_negotiation_result := Some negotiation_result\<rparr>"

definition Contract_payload :: "collaborators \<Rightarrow> contract \<Rightarrow> bytes" where
  "Contract_payload E self = kfrag_to_bytes E (c_kfrag self) @ ''This might be a ChallengePack''"

definition encrypt_payload_for_ursula :: "collaborators \<Rightarrow> contract \<Rightarrow> py" where
  "encrypt_payload_for_ursula E self =
     fst (encrypt_for E (c_alice self) (c_ursula self) (Contract_payload E self))"

text \<open>
  \<open>Contract.from_ursula(cls, group_payload, ursula)\<close>. The result is paired with the
  proxy, which \<open>learn_about_actor\<close> updates. The branch \<open>if not verified: pass\<close> does
  nothing, so \<open>verified\<close> is bound and not used. The constructor is called with the
  keywords alice, alices_signature, kfrag and encrypted_challenge_pack only. An
  unpacking of a sequence of the wrong length is Python's ValueError.
\<close>

definition from_ursula :: "collaborators \<Rightarrow> bytes \<Rightarrow> actor \<Rightarrow> (error + contract) \<times> actor" where
  "from_ursula E group_payload ursula =
     (case BytestringSplitter [public_key_length E] group_payload of
        Inl e \<Rightarrow> (Inl e, ursula)
      | Inr ([alice_pubkey_sig], remainder) \<Rightarrow>
          (case msgpack_loads E remainder of
             Inl e \<Rightarrow> (Inl e, ursula)
           | Inr payload_encrypted_for_ursula \<Rightarrow>
               (let alice = from_pubkey_sig_bytes alice_pubkey_sig;
                    ursula' = learn_about_actor ursula alice
                in case verify_from E ursula' alice payload_encrypted_for_ursula of
                     (verified, cleartext) \<Rightarrow>
                       (case BytestringSplitter [signature_length E] cleartext of
                          Inl e \<Rightarrow> (Inl e, ursula')
                        | Inr ([alices_signature], policy_payload) \<Rightarrow>
                            (case BytestringSplitter [kfrag_length E] policy_payload of
                               Inl e \<Rightarrow> (Inl e, ursula')
                             | Inr ([kfrag], encrypted_challenge_pack) \<Rightarrow>
                                 (Contract_init (Some alice) None PyNone None (Some (KFrag kfrag))
                                    (Some alices_signature) (Some encrypted_challenge_pack),
                                  ursula')
                             | Inr _ \<Rightarrow> (Inl (ValueError ''unpack''), ursula'))
                        | Inr _ \<Rightarrow> (Inl (ValueError ''unpack''), ursula'))))
      | Inr _ \<Rightarrow> (Inl (ValueError ''unpack''), ursula))"

section \<open>Policy\<close>

text \<open>
  \<open>treasure_map\<close> of a Policy is the plain list \<open>[]\<close> that \<open>__init__\<close> assigns;
  \<open>_active_contracts\<close> is a dict from key fragment to Contract. \<open>bob\<close> and \<open>uri\<close>
  default to None, \<open>alices_signature\<close> to NOT_SIGNED (here \<open>None\<close>).
\<close>

record policy =
  p_alice :: actor
  p_bob :: "actor option"
  p_alices_signature :: "bytes option"
  p_kfrags :: "kfrag list"
  p_pfrag :: "pfrag option"
  p_uri :: "bytes option"
  p_random_id_portion :: bytes
  p_challenge_size :: nat
  p_treasure_map :: "bytes list"
  p_challenge_pack :: "py list"
  p_active_contracts :: "kfrag \<rightharpoonup> contract"
  p_encrypted_challenge_pack :: "bytes option"

text \<open>
  \<open>Policy.__init__\<close>; \<open>random\<close> is what \<open>api.secure_random(32)\<close> returns. A call
  that gives no \<open>kfrags\<close> gets the default \<open>(UNKNOWN_KFRAG,)\<close>.
\<close>

definition Policy_init ::
  "bytes \<Rightarrow> actor \<Rightarrow> actor option \<Rightarrow> kfrag list option \<Rightarrow> pfrag option \<Rightarrow> bytes option \<Rightarrow> policy" where
  "Policy_init random alice bob kfrags pfrag uri =
     \<lparr>p_alice = alice, p_bob = bob, p_alices_signature = None,
      p_kfrags = (case kfrags of None \<Rightarrow> [UNKNOWN_KFRAG] | Some ks \<Rightarrow> ks),
      p_pfrag = pfrag, p_uri = uri, p_random_id_portion = random, p_challenge_size = 20,
      p_treasure_map = [], p_challenge_pack = [], p_active_contracts = Map.empty,
      p_encrypted_challenge_pack = None\<rparr>"

definition from_alice ::
  "bytes \<Rightarrow> kfrag list \<Rightarrow> pfrag \<Rightarrow> actor \<Rightarrow> actor \<Rightarrow> bytes \<Rightarrow> policy" where
  "from_alice random kfrags pfrag alice bob uri =
     Policy_init random alice (Some bob) (Some kfrags) (Some pfrag) (Some uri)"

definition PolicyGroup_hash :: "collaborators \<Rightarrow> bytes \<Rightarrow> bytes" where
  "PolicyGroup_hash E message = keccak_digest E message"

definition hrac_for :: "collaborators \<Rightarrow> actor \<Rightarrow> actor \<Rightarrow> bytes \<Rightarrow> bytes" where
  "hrac_for E alice bob uri = PolicyGroup_hash E (seal_bytes alice @ seal_bytes bob @ uri)"

text \<open>
  \<open>Policy.hrac(self)\<close> passes \<open>self.bob\<close> and \<open>self.uri\<close> on: with no Bob,
  \<open>bob.seal\<close> is an AttributeError on None; with no uri, the concatenation of bytes
  and None is a TypeError.
\<close>

definition Policy_hrac :: "collaborators \<Rightarrow> policy \<Rightarrow> error + bytes" where
  "Policy_hrac E self =
     (case p_bob self of
        None \<Rightarrow> Inl (AttributeError ''seal'')
      | Some bob \<Rightarrow>
          (case p_uri self of
             None \<Rightarrow> Inl (TypeError ''can't concat NoneType to bytes'')
           | Some uri \<Rightarrow> Inr (hrac_for E (p_alice self) bob uri)))"

text \<open>
  The specification's words for the same value: the hash of owner public key,
  recipient public key and resource URI, concatenated.
\<close>

definition computeHRAC :: "(bytes \<Rightarrow> bytes) \<Rightarrow> bytes \<Rightarrow> bytes \<Rightarrow> bytes \<Rightarrow> bytes" where
  "computeHRAC hash ownerPubKey recipientPubKey uri = hash (ownerPubKey @ recipientPubKey @ uri)"

text \<open>
  \<open>craft_offer(self, deposit, expiration)\<close> returns
  \<open>Contract(self.alice, deposit, expiration)\<close>: the arguments are passed by
  position, in this order.
\<close>

definition craft_offer :: "policy \<Rightarrow> py \<Rightarrow> py \<Rightarrow> error + contract" where
  "craft_offer self deposit expiration =
     Contract_init (Some (p_alice self)) (Some deposit) expiration None None None None"

section \<open>Work Order\<close>

record work_order =
  wo_bob :: actor
  wo_kfrag_hrac :: bytes
  wo_pfrags :: "pfrag list"
  wo_receipt_bytes :: bytes
  wo_receipt_signature :: bytes
  wo_ursula_id :: "bytes option"

definition WorkOrder_init ::
  "actor \<Rightarrow> bytes \<Rightarrow> pfrag list \<Rightarrow> bytes \<Rightarrow> bytes \<Rightarrow> bytes option \<Rightarrow> work_order" where
  "WorkOrder_init bob kfrag_hrac pfrags receipt_bytes receipt_signature ursula_id =
     \<lparr>wo_bob = bob, wo_kfrag_hrac = kfrag_hrac, wo_pfrags = pfrags,
      wo_receipt_bytes = receipt_bytes, wo_receipt_signature = receipt_signature,
      wo_ursula_id = ursula_id\<rparr>"

definition WorkOrder_eq :: "work_order \<Rightarrow> work_order \<Rightarrow> bool" where
  "WorkOrder_eq self other =
     ((wo_receipt_bytes self, wo_receipt_signature self) =
      (wo_receipt_bytes other, wo_receipt_signature other))"

definition constructed_by_bob ::
  "collaborators \<Rightarrow> bytes \<Rightarrow> pfrag list \<Rightarrow> bytes \<Rightarrow> actor \<Rightarrow> work_order" where
  "constructed_by_bob E kfrag_hrac pfrags ursula_dht_key bob =
     (let receipt_bytes = ''wo:'' @ ursula_dht_key;
          receipt_signature = seal_call E bob receipt_bytes
      in WorkOrder_init bob kfrag_hrac pfrags receipt_bytes receipt_signature
           (Some ursula_dht_key))"

text \<open>
  The unpacking \<open>(receipt_bytes, packed_pfrags) = ...\<close> of what msgpack returned:
  a sequence of two items (the two bytes of a byte string are integers), a ValueError
  for another length, a TypeError for a value that is no sequence.
\<close>

fun unpack_pair :: "py \<Rightarrow> error + py \<times> py" where
  "unpack_pair (PyList [a, b]) = Inr (a, b)"
| "unpack_pair (PyBytes [a, b]) = Inr (PyInt (of_char a), PyInt (of_char b))"
| "unpack_pair (PyList _) = Inl (ValueError ''unpack'')"
| "unpack_pair (PyBytes _) = Inl (ValueError ''unpack'')"
| "unpack_pair _ = Inl (TypeError ''cannot unpack non-iterable object'')"

text \<open>\<open>msgpack.loads(packed_pfrags)\<close>: msgpack unpacks bytes only.\<close>

definition loads_packed :: "collaborators \<Rightarrow> py \<Rightarrow> error + py" where
  "loads_packed E packed =
     (case packed of
        PyBytes b \<Rightarrow> msgpack_loads E b
      | _ \<Rightarrow> Inl (TypeError ''a bytes-like object is required''))"

text \<open>
  \<open>[PFrag(p) for p in ...]\<close>: a PFrag is built from bytes; the items of a byte
  string are integers; None and an integer cannot be iterated.
\<close>

fun PFrag_of :: "py \<Rightarrow> error + pfrag" where
  "PFrag_of (PyBytes b) = Inr (PFrag b)"
| "PFrag_of _ = Inl (TypeError ''PFrag'')"

fun pfrags_of_items :: "py list \<Rightarrow> error + pfrag list" where
  "pfrags_of_items [] = Inr []"
| "pfrags_of_items (p # ps) =
     (case PFrag_of p of
        Inl e \<Rightarrow> Inl e
      | Inr f \<Rightarrow> (case pfrags_of_items ps of Inl e \<Rightarrow> Inl e | Inr fs \<Rightarrow> Inr (f # fs)))"

fun pfrags_of :: "py \<Rightarrow> error + pfrag list" where
  "pfrags_of (PyList ps) = pfrags_of_items ps"
| "pfrags_of (PyBytes bs) = pfrags_of_items (map (\<lambda>c. PyInt (of_char c)) bs)"
| "pfrags_of _ = Inl (TypeError ''object is not iterable'')"

text \<open>
  \<open>WorkOrder.from_rest_payload(cls, kfrag_hrac, rest_payload)\<close>: split off signature
  and public key, unpack the remainder, build the PFrags, verify the signature over
  the receipt bytes with the public key of the payload, raise when it does not verify.
  The Work Order returned has no \<open>ursula_id\<close>. (A receipt that is not bytes cannot be
  verified: a TypeError at the call of \<open>verify\<close>.)
\<close>

definition from_rest_payload :: "collaborators \<Rightarrow> bytes \<Rightarrow> bytes \<Rightarrow> error + work_order" where
  "from_rest_payload E kfrag_hrac rest_payload =
     (case BytestringSplitter [signature_length E, public_key_length E] rest_payload of
        Inl e \<Rightarrow> Inl e
      | Inr ([signature, bob_pubkey_sig], remainder) \<Rightarrow>
          (case msgpack_loads E remainder of
             Inl e \<Rightarrow> Inl e
           | Inr unpacked \<Rightarrow>
               (case unpack_pair unpacked of
                  Inl e \<Rightarrow> Inl e
                | Inr (receipt, packed_pfrags) \<Rightarrow>
                    (case loads_packed E packed_pfrags of
                       Inl e \<Rightarrow> Inl e
                     | Inr items \<Rightarrow>
                         (case pfrags_of items of
                            Inl e \<Rightarrow> Inl e
                          | Inr pfrags \<Rightarrow>
                              (case receipt of
                                 PyBytes receipt_bytes \<Rightarrow>
                                   (if \<not> signature_verify E signature receipt_bytes bob_pubkey_sig
                                    then Inl UnauthenticatedOrder
                                    else Inr (WorkOrder_init (from_pubkey_sig_bytes bob_pubkey_sig)
                                                kfrag_hrac pfrags receipt_bytes signature None))
                               | _ \<Rightarrow> Inl (TypeError ''verify''))))))
      | Inr _ \<Rightarrow> Inl (ValueError ''unpack''))"

definition WorkOrder_payload :: "collaborators \<Rightarrow> work_order \<Rightarrow> bytes" where
  "WorkOrder_payload E self =
     (let pfrags_as_bytes = map (\<lambda>p. PyBytes (pfrag_bytes p)) (wo_pfrags self);
          packed_receipt_and_pfrags =
            msgpack_dumps E (PyList [PyBytes (wo_receipt_bytes self),
                                     PyBytes (msgpack_dumps E (PyList pfrags_as_bytes))])
      in wo_receipt_signature self @ seal_bytes (wo_bob self) @ packed_receipt_and_pfrags)"

section \<open>Treasure Map and its publication\<close>

record treasure_map =
  ids :: "bytes list"

definition TreasureMap_init :: "bytes list option \<Rightarrow> treasure_map" where
  "TreasureMap_init ursula_interface_ids =
     \<lparr>ids = (case ursula_interface_ids of None \<Rightarrow> [] | Some [] \<Rightarrow> [] | Some l \<Rightarrow> l)\<rparr>"

definition packed_payload :: "collaborators \<Rightarrow> treasure_map \<Rightarrow> bytes" where
  "packed_payload E self = msgpack_dumps E (PyList (map PyBytes (ids self)))"

definition add_ursula :: "collaborators \<Rightarrow> treasure_map \<Rightarrow> actor \<Rightarrow> treasure_map" where
  "add_ursula E self ursula = self\<lparr>ids := ids self @ [interface_dht_key E ursula]\<rparr>"

text \<open>
  \<open>PolicyGroup\<close>. Its methods call \<open>self.hrac()\<close>, an attribute the class does not
  define and Python looks up at the call: \<open>pg_hrac\<close> is \<open>None\<close> for every object
  the class builds (the call raises AttributeError); \<open>Some h\<close> stands for an object
  that has been given an \<open>hrac()\<close> from outside the class, returning \<open>h\<close>.
\<close>

record policy_group =
  pg_policies :: "policy list"
  pg_alice :: actor
  pg_bob :: actor
  pg_uri :: bytes
  pg_treasure_map :: treasure_map
  pg_hrac :: "bytes option"

text \<open>
  \<open>PolicyGroup.__init__(self, uri, alice, bob, policies=None)\<close>: the policies given
  or \<open>[]\<close>, and a new, empty TreasureMap. Neither the class nor \<open>__init__\<close> gives the
  object an \<open>hrac\<close>.
\<close>

definition PolicyGroup_init ::
  "bytes \<Rightarrow> actor \<Rightarrow> actor \<Rightarrow> policy list option \<Rightarrow> policy_group" where
  "PolicyGroup_init uri alice bob policies =
     \<lparr>pg_policies = (case policies of None \<Rightarrow> [] | Some ps \<Rightarrow> ps),
      pg_alice = alice, pg_bob = bob, pg_uri = uri,
      pg_treasure_map = TreasureMap_init None, pg_hrac = None\<rparr>"

definition treasure_map_dht_key :: "collaborators \<Rightarrow> policy_group \<Rightarrow> error + bytes" where
  "treasure_map_dht_key E self =
     (case pg_hrac self of
        None \<Rightarrow> Inl (AttributeError ''hrac'')
      | Some hrac \<Rightarrow> Inr (PolicyGroup_hash E (seal_bytes (pg_alice self) @ hrac)))"

text \<open>
  \<open>publish_treasure_map(self)\<close>. The storage network is the list of the calls
  \<open>server.set(key, value)\<close> made so far, in order; the event loop runs the one call to
  its end. The function returns the tuple (encrypted_treasure_map, dht_value,
  signature_for_bob, signature_for_ursula).
\<close>

definition publish_treasure_map ::
  "collaborators \<Rightarrow> policy_group \<Rightarrow> (bytes \<times> bytes) list \<Rightarrow>
   (error + py \<times> bytes \<times> bytes \<times> bytes) \<times> (bytes \<times> bytes) list" where
  "publish_treasure_map E self server =
     (case encrypt_for E (pg_alice self) (Some (pg_bob self))
             (packed_payload E (pg_treasure_map self)) of
        (encrypted_treasure_map, signature_for_bob) \<Rightarrow>
          (case pg_hrac self of
             None \<Rightarrow> (Inl (AttributeError ''hrac''), server)
           | Some hrac \<Rightarrow>
               (let signature_for_ursula = seal_call E (pg_alice self) hrac;
                    dht_value = signature_for_ursula @ seal_bytes (pg_alice self) @ hrac
                                @ msgpack_dumps E encrypted_treasure_map
                in case treasure_map_dht_key E self of
                     Inl e \<Rightarrow> (Inl e, server)
                   | Inr dht_key \<Rightarrow>
                       (Inr (encrypted_treasure_map, dht_value, signature_for_bob,
                             signature_for_ursula),
                        server @ [(dht_key, ''trmap'' @ dht_value)]))))"

section \<open>Enactment\<close>

text \<open>
  The last statement of the loop of \<open>Policy.enact\<close> is
  \<open>self.treasure_map.add_ursula(policy.ursula)\<close>. \<open>self.treasure_map\<close> is the list
  of \<open>Policy.__init__\<close>, not a TreasureMap: the attribute \<open>add_ursula\<close> of a list does
  not exist, and looking it up raises AttributeError before the argument (the name
  \<open>policy\<close>, bound nowhere) is evaluated.
\<close>

definition list_add_ursula :: "bytes list \<Rightarrow> error + bytes list" where
  "list_add_ursula treasure_map = Inl (AttributeError ''add_ursula'')"

text \<open>
  \<open>Policy.enact(self, networky_stuff)\<close>. \<open>networky_stuff.enact_policy\<close> is the
  function \<open>net\<close>, which returns the response or the exception it raises. The state
  is the Policy's treasure map and the calls of \<open>enact_policy\<close> made so far (proxy,
  HRAC, payload). The arguments of \<open>enact_policy\<close> are evaluated before the call, so
  an exception of \<open>self.hrac()\<close> comes first.
\<close>

type_synonym transmission = "actor option \<times> bytes \<times> bytes"

fun enact_loop ::
  "collaborators \<Rightarrow> (actor option \<Rightarrow> bytes \<Rightarrow> bytes \<Rightarrow> error + py) \<Rightarrow> policy \<Rightarrow> kfrag list \<Rightarrow>
   bytes list \<times> transmission list \<Rightarrow> (error + unit) \<times> bytes list \<times> transmission list" where
  "enact_loop E net self [] st = (Inr (), st)"
| "enact_loop E net self (kfrag # rest) (tm, calls) =
     (case p_active_contracts self kfrag of
        None \<Rightarrow> (Inl (KeyError kfrag), tm, calls)
      | Some contract \<Rightarrow>
          (let policy_payload = encrypt_payload_for_ursula E contract;
               full_payload = seal_bytes (p_alice self) @ msgpack_dumps E policy_payload
           in case Policy_hrac E self of
                Inl e \<Rightarrow> (Inl e, tm, calls)
              | Inr hrac \<Rightarrow>
                  (case net (c_ursula contract) hrac full_payload of
                     Inl e \<Rightarrow> (Inl e, tm, calls @ [(c_ursula contract, hrac, full_payload)])
                   | Inr response \<Rightarrow>
                       (case list_add_ursula tm of
                          Inl e \<Rightarrow> (Inl e, tm, calls @ [(c_ursula contract, hrac, full_payload)])
                        | Inr tm' \<Rightarrow>
                            enact_loop E net self rest
                              (tm', calls @ [(c_ursula contract, hrac, full_payload)])))))"

definition enact ::
  "collaborators \<Rightarrow> (actor option \<Rightarrow> bytes \<Rightarrow> bytes \<Rightarrow> error + py) \<Rightarrow> policy \<Rightarrow>
   (error + unit) \<times> bytes list \<times> transmission list" where
  "enact E net self = enact_loop E net self (p_kfrags self) (p_treasure_map self, [])"

text \<open>
  The payload \<open>enact\<close> sends for a Contract, as the loop builds it.
\<close>

definition full_payload_for :: "collaborators \<Rightarrow> policy \<Rightarrow> contract \<Rightarrow> bytes" where
  "full_payload_for E self contract =
     seal_bytes (p_alice self) @ msgpack_dumps E (encrypt_payload_for_ursula E contract)"

section \<open>A small instance of the collaborators\<close>

text \<open>
  Examples need collaborators that compute. The instance \<open>toy\<close> has a four-byte
  signature determined by public key and message, two-byte public keys, three-byte
  key fragments, a reversal as encryption, and the nil, positive fixint, bin 8 and
  fixarray formats of MessagePack.
\<close>

definition toy_digest :: "bytes \<Rightarrow> bytes" where
  "toy_digest m = CHR ''H'' # take 3 (rev m)"

definition toy_signature :: "bytes \<Rightarrow> bytes \<Rightarrow> bytes" where
  "toy_signature pk m = take 4 (pk @ rev m @ ''....'')"

definition toy_seal :: "actor \<Rightarrow> bytes \<Rightarrow> bytes" where
  "toy_seal a m = toy_signature (seal_bytes a) m"

definition toy_verify :: "bytes \<Rightarrow> bytes \<Rightarrow> bytes \<Rightarrow> bool" where
  "toy_verify signature m pk = (signature = toy_signature pk m)"

definition toy_encrypt_for :: "actor \<Rightarrow> actor option \<Rightarrow> bytes \<Rightarrow> py \<times> bytes" where
  "toy_encrypt_for a recipient m = (PyBytes (rev (toy_seal a m @ m)), toy_seal a m)"

definition toy_verify_from :: "actor \<Rightarrow> actor \<Rightarrow> py \<Rightarrow> bool \<times> bytes" where
  "toy_verify_from self a v =
     (case v of
        PyBytes c \<Rightarrow> (toy_verify (take 4 (rev c)) (drop 4 (rev c)) (seal_bytes a), rev c)
      | _ \<Rightarrow> (False, []))"

fun toy_kfrag_bytes :: "kfrag \<Rightarrow> bytes" where
  "toy_kfrag_bytes UNKNOWN_KFRAG = ''???''"
| "toy_kfrag_bytes (KFrag b) = b"

fun toy_dumps :: "py \<Rightarrow> bytes" where
  "toy_dumps PyNone = [CHR 0xC0]"
| "toy_dumps (PyInt i) = [char_of (nat i)]"
| "toy_dumps (PyBytes b) = CHR 0xC4 # char_of (length b) # b"
| "toy_dumps (PyList xs) = char_of (144 + length xs) # concat (map toy_dumps xs)"

fun toy_unpack :: "nat \<Rightarrow> bytes \<Rightarrow> (py \<times> bytes) option"
  and toy_unpack_items :: "nat \<Rightarrow> nat \<Rightarrow> bytes \<Rightarrow> (py list \<times> bytes) option" where
  "toy_unpack 0 bs = None"
| "toy_unpack (Suc fuel) [] = None"
| "toy_unpack (Suc fuel) (c # bs) =
     (if of_char c = (192::nat) then Some (PyNone, bs)
      else if of_char c < (128::nat) then Some (PyInt (of_char c), bs)
      else if of_char c = (196::nat) then
        (case bs of
           [] \<Rightarrow> None
         | l # body \<Rightarrow>
             if length body < of_char l then None
             else Some (PyBytes (take (of_char l) body), drop (of_char l) body))
      else if (144::nat) \<le> of_char c \<and> of_char c < (160::nat) then
        (case toy_unpack_items fuel (of_char c - 144) bs of
           None \<Rightarrow> None
         | Some (xs, r) \<Rightarrow> Some (PyList xs, r))
      else None)"
| "toy_unpack_items fuel 0 bs = Some ([], bs)"
| "toy_unpack_items fuel (Suc n) bs =
     (case toy_unpack fuel bs of
        None \<Rightarrow> None
      | Some (x, r) \<Rightarrow>
          (case toy_unpack_items fuel n r of
             None \<Rightarrow> None
           | Some (xs, r') \<Rightarrow> Some (x # xs, r')))"

definition toy_loads :: "bytes \<Rightarrow> error + py" where
  "toy_loads bs =
     (case toy_unpack (Suc (length bs)) bs of
        Some (v, []) \<Rightarrow> Inr v
      | _ \<Rightarrow> Inl UnpackError)"

definition toy_dht_key :: "actor \<Rightarrow> bytes" where
  "toy_dht_key a = ''id-'' @ seal_bytes a"

definition toy :: collaborators where
  "toy = \<lparr>keccak_digest = toy_digest, signature_length = 4, public_key_length = 2,
          kfrag_length = 3, kfrag_to_bytes = toy_kfrag_bytes, seal_call = toy_seal,
          signature_verify = toy_verify, encrypt_for = toy_encrypt_for,
          verify_from = toy_verify_from, msgpack_dumps = toy_dumps,
          msgpack_loads = toy_loads, interface_dht_key = toy_dht_key\<rparr>"

section \<open>Hypotheses on the collaborators\<close>

text \<open>msgpack gives a value back: unpacking what it packed returns the value.\<close>

definition roundtrips :: "collaborators \<Rightarrow> py \<Rightarrow> bool" where
  "roundtrips E v = (msgpack_loads E (msgpack_dumps E v) = Inr v)"

section \<open>Instances used in examples\<close>

definition alice1 :: actor where
  "alice1 = \<lparr>seal_bytes = ''A1'', known_actors = []\<rparr>"

definition bob1 :: actor where
  "bob1 = \<lparr>seal_bytes = ''B1'', known_actors = []\<rparr>"

definition ursula1 :: actor where
  "ursula1 = \<lparr>seal_bytes = ''U1'', known_actors = []\<rparr>"

definition policy1 :: policy where
  "policy1 = from_alice ''r'' [KFrag ''kf1''] (PFrag ''pf'') alice1 bob1 ''uri''"

text \<open>A Contract of Alice's, activated for the fragment \<open>kf1\<close> with the proxy U1.\<close>

definition contract1 :: contract where
  "contract1 =
     activate \<lparr>c_alice = alice1, c_expiration = PyInt 100, c_deposit = PyInt 5,
               c_ursula = None, c_kfrag = UNKNOWN_KFRAG, c_encrypted_challenge_pack = None,
               c_negotiation_result = None\<rparr>
       (KFrag ''kf1'') ursula1 PyNone"

text \<open>One fragment with its active Contract; two fragments and no Contract.\<close>

definition policy_active :: policy where
  "policy_active = policy1\<lparr>p_active_contracts := [KFrag ''kf1'' \<mapsto> contract1]\<rparr>"

definition policy_unresolved :: policy where
  "policy_unresolved =
     from_alice ''r'' [KFrag ''kf1'', KFrag ''kf2''] (PFrag ''pf'') alice1 bob1 ''uri''"

text \<open>Two fragments, an active Contract for the first only.\<close>

definition policy_partial :: policy where
  "policy_partial = policy_unresolved\<lparr>p_active_contracts := [KFrag ''kf1'' \<mapsto> contract1]\<rparr>"

text \<open>A network client whose every transmission succeeds, and one whose every
  transmission fails.\<close>

definition net_ok :: "actor option \<Rightarrow> bytes \<Rightarrow> bytes \<Rightarrow> error + py" where
  "net_ok ursula hrac payload = Inr PyNone"

definition net_down :: "actor option \<Rightarrow> bytes \<Rightarrow> bytes \<Rightarrow> error + py" where
  "net_down ursula hrac payload = Inl PeerUnreachable"

text \<open>
  A PolicyGroup as the class builds it, with the proxy U1 added to its treasure map.
\<close>

definition group1 :: policy_group where
  "group1 =
     (PolicyGroup_init ''uri'' alice1 bob1 None)
       \<lparr>pg_treasure_map := add_ursula toy (TreasureMap_init None) ursula1\<rparr>"

text \<open>
  Two group payloads for the proxy: the one \<open>enact\<close> sends for \<open>contract1\<close>, and one
  with Alice's public key in front of a cleartext whose signature \<open>XXXX\<close> is not
  Alice's.
\<close>

definition genuine_group_payload :: bytes where
  "genuine_group_payload = full_payload_for toy policy_active contract1"

definition forged_cleartext :: bytes where
  "forged_cleartext = ''XXXX'' @ ''kf1'' @ ''This might be a ChallengePack''"

definition forged_group_payload :: bytes where
  "forged_group_payload = ''A1'' @ toy_dumps (PyBytes (rev forged_cleartext))"

text \<open>
  A Work Order of Bob's for the proxy with discovery key \<open>P-key\<close>, and a payload
  with Bob's public key and a signature that is not his.
\<close>

definition order_for_P :: work_order where
  "order_for_P = constructed_by_bob toy ''h'' [PFrag ''p1'', PFrag ''p2''] ''P-key'' bob1"

definition forged_order_payload :: bytes where
  "forged_order_payload =
     ''XXXX'' @ ''B1''
     @ toy_dumps (PyList [PyBytes ''wo:P-key'', PyBytes (toy_dumps (PyList [PyBytes ''p1'']))])"

section \<open>Properties\<close>

subsection \<open>HRAC\<close>

text \<open>
  C7. The HRAC is the hash of the owner's public key, the recipient's public key and
  the resource URI, concatenated in this order: \<open>hrac_for\<close> is that function of the
  three inputs and of nothing else, and \<open>Policy.hrac\<close> of a Policy with a Bob and a
  uri is the same digest, whatever the Policy's other fields hold.
\<close>

theorem hrac_is_hash_of_keys_and_uri:
  "hrac_for E alice bob uri
     = computeHRAC (keccak_digest E) (seal_bytes alice) (seal_bytes bob) uri
   \<and> Policy_hrac E (p\<lparr>p_bob := Some bob, p_uri := Some uri\<rparr>)
     = Inr (computeHRAC (keccak_digest E) (seal_bytes (p_alice p)) (seal_bytes bob) uri)"
  by (simp add: hrac_for_def PolicyGroup_hash_def computeHRAC_def Policy_hrac_def)

subsection \<open>Contract\<close>

text \<open>
  C9. \<open>craft_offer\<close> with deposit 5 and expiration 100 returns a Contract with no
  proxy and the fragment unknown, whose expiration is 5 and whose deposit is 100: the
  two are exchanged.
\<close>

theorem craft_offer_swaps_deposit_and_expiration:
  "craft_offer policy1 (PyInt 5) (PyInt 100)
     = Inr \<lparr>c_alice = alice1, c_expiration = PyInt 5, c_deposit = PyInt 100,
            c_ursula = None, c_kfrag = UNKNOWN_KFRAG, c_encrypted_challenge_pack = None,
            c_negotiation_result = None\<rparr>"
  by (simp add: craft_offer_def Contract_init_def policy1_def from_alice_def Policy_init_def)

text \<open>
  The verified flag has no part in what \<open>from_ursula\<close> returns: with a
  \<open>verify_from\<close> that reports any other flag for the same cleartext, the result is
  the same.
\<close>

lemma from_ursula_verified_unused:
  "from_ursula (E\<lparr>verify_from := \<lambda>u a m. (b, snd (verify_from E u a m))\<rparr>) group_payload ursula
   = from_ursula E group_payload ursula"
  by (simp add: from_ursula_def Let_def split: sum.splits prod.splits list.splits)

text \<open>
  C1. The forged group payload does not verify (\<open>verify_from\<close> reports False), and
  \<open>from_ursula\<close> does not fail with UnverifiedSender: it goes on to split the
  cleartext and to call the constructor, and ends in the TypeError of the missing
  \<open>expiration\<close>, exactly as it does for the genuine payload.
\<close>

theorem from_ursula_ignores_failed_verification:
  "verify_from toy (learn_about_actor ursula1 (from_pubkey_sig_bytes ''A1''))
     (from_pubkey_sig_bytes ''A1'') (PyBytes (rev forged_cleartext)) = (False, forged_cleartext)
   \<and> from_ursula toy forged_group_payload ursula1
       = (Inl (TypeError ''__init__() missing 1 required positional argument: expiration''),
          ursula1\<lparr>known_actors := [''A1'']\<rparr>)
   \<and> fst (from_ursula toy forged_group_payload ursula1) \<noteq> Inl UnverifiedSender
   \<and> from_ursula toy genuine_group_payload ursula1
       = from_ursula toy forged_group_payload ursula1"
  by code_simp

subsection \<open>Enactment\<close>

lemma enact_first_unresolved:
  assumes "p_kfrags self = k # ks" and "p_active_contracts self k = None"
  shows "enact E net self = (Inl (KeyError k), p_treasure_map self, [])"
  using assms by (simp add: enact_def)

lemma enact_first_transmission_fails:
  assumes "p_kfrags self = k # ks" and "p_active_contracts self k = Some c"
    and "Policy_hrac E self = Inr h"
    and "net (c_ursula c) h (full_payload_for E self c) = Inl e"
  shows "enact E net self
           = (Inl e, p_treasure_map self, [(c_ursula c, h, full_payload_for E self c)])"
  using assms by (simp add: enact_def full_payload_for_def)

text \<open>
  C2, as the claim states it, fails. With two fragments and no Contract, \<open>enact\<close>
  fails with the KeyError of the first fragment's lookup, which names that fragment
  only, and not with an IncompletePolicy listing the indices 0 and 1. With a Contract
  for the first of two fragments only, no check precedes the loop: the payload of the
  first fragment is transmitted to its proxy before \<open>enact\<close> fails, and the failure
  is not an IncompletePolicy listing the index 1. With the active Contract and a
  network client that fails, it fails with the client's own PeerUnreachable and not
  with EnactmentFailed.
\<close>

theorem enact_error_counterexample:
  "enact toy net_ok policy_unresolved = (Inl (KeyError (KFrag ''kf1'')), [], [])
   \<and> fst (enact toy net_ok policy_unresolved) \<noteq> Inl (IncompletePolicy [0, 1])
   \<and> p_active_contracts policy_partial (KFrag ''kf2'') = None
   \<and> snd (snd (enact toy net_ok policy_partial))
       = [(Some ursula1, ''Hiru'', full_payload_for toy policy_partial contract1)]
   \<and> fst (enact toy net_ok policy_partial) \<noteq> Inl (IncompletePolicy [1])
   \<and> fst (enact toy net_down policy_active) = Inl PeerUnreachable
   \<and> fst (enact toy net_down policy_active) \<noteq> Inl EnactmentFailed"
  by code_simp

text \<open>
  C2, amended. On a Policy whose first key fragment has no active Contract,
  \<open>enact\<close> fails with the KeyError of that fragment's lookup; nothing has been
  transmitted and the treasure map is as it was. On a Policy whose first key fragment
  has an active Contract and whose transmission fails, \<open>enact\<close> fails with the
  network client's error, after that one call, and the treasure map is as it was.
\<close>

theorem enact_fails_at_first_fragment:
  "(p_kfrags self = k # ks \<and> p_active_contracts self k = None \<longrightarrow>
        enact E net self = (Inl (KeyError k), p_treasure_map self, []))
   \<and> (p_kfrags self = k # ks \<and> p_active_contracts self k = Some c \<and> Policy_hrac E self = Inr h
        \<and> net (c_ursula c) h (full_payload_for E self c) = Inl e \<longrightarrow>
        enact E net self
          = (Inl e, p_treasure_map self, [(c_ursula c, h, full_payload_for E self c)]))"
proof (intro conjI impI)
  assume "p_kfrags self = k # ks \<and> p_active_contracts self k = None"
  then show "enact E net self = (Inl (KeyError k), p_treasure_map self, [])"
    by (simp add: enact_first_unresolved)
next
  assume "p_kfrags self = k # ks \<and> p_active_contracts self k = Some c
          \<and> Policy_hrac E self = Inr h
          \<and> net (c_ursula c) h (full_payload_for E self c) = Inl e"
  then show "enact E net self
               = (Inl e, p_treasure_map self, [(c_ursula c, h, full_payload_for E self c)])"
    by (simp add: enact_first_transmission_fails)
qed

text \<open>
  The hypotheses of the amended C2 hold on the examples: the Policy with two
  fragments and no Contract, and the Policy with its active Contract on a network
  client that fails.
\<close>

theorem enact_fails_at_first_fragment_witness:
  "p_kfrags policy_unresolved = [KFrag ''kf1'', KFrag ''kf2'']
   \<and> p_active_contracts policy_unresolved (KFrag ''kf1'') = None
   \<and> enact toy net_ok policy_unresolved = (Inl (KeyError (KFrag ''kf1'')), [], [])
   \<and> p_kfrags policy_active = [KFrag ''kf1'']
   \<and> p_active_contracts policy_active (KFrag ''kf1'') = Some contract1
   \<and> Policy_hrac toy policy_active = Inr ''Hiru''
   \<and> net_down (c_ursula contract1) ''Hiru'' (full_payload_for toy policy_active contract1)
       = Inl PeerUnreachable
   \<and> enact toy net_down policy_active
       = (Inl PeerUnreachable, [],
          [(c_ursula contract1, ''Hiru'', full_payload_for toy policy_active contract1)])"
proof -
  have u2: "p_kfrags policy_unresolved = KFrag ''kf1'' # [KFrag ''kf2'']
            \<and> p_active_contracts policy_unresolved (KFrag ''kf1'') = None"
    by (simp add: policy_unresolved_def from_alice_def Policy_init_def)
  have u3: "p_treasure_map policy_unresolved = []"
    by (simp add: policy_unresolved_def from_alice_def Policy_init_def)
  have a1: "p_kfrags policy_active = KFrag ''kf1'' # []
            \<and> p_active_contracts policy_active (KFrag ''kf1'') = Some contract1
            \<and> Policy_hrac toy policy_active = Inr ''Hiru''
            \<and> net_down (c_ursula contract1) ''Hiru'' (full_payload_for toy policy_active contract1)
                = Inl PeerUnreachable"
    by code_simp
  have a2: "p_treasure_map policy_active = []"
    by code_simp
  note t1 = enact_fails_at_first_fragment
      [where self = policy_unresolved and k = "KFrag ''kf1''" and ks = "[KFrag ''kf2'']"
         and E = toy and net = net_ok]
  note t2 = enact_fails_at_first_fragment
      [where self = policy_active and k = "KFrag ''kf1''" and ks = "[]" and c = contract1
         and E = toy and h = "''Hiru''" and net = net_down and e = PeerUnreachable]
  from t1 u2 u3 have r1:
    "enact toy net_ok policy_unresolved = (Inl (KeyError (KFrag ''kf1'')), [], [])"
    by metis
  from t2 a1 a2 have r2: "enact toy net_down policy_active
       = (Inl PeerUnreachable, [],
          [(c_ursula contract1, ''Hiru'', full_payload_for toy policy_active contract1)])"
    by metis
  show ?thesis using r1 r2 u2 a1 by simp
qed

text \<open>
  C3. The Policy has one key fragment, with an active Contract bound to the proxy U1,
  and every transmission succeeds. \<open>enact\<close> transmits the payload of that fragment
  and then fails with the AttributeError of \<open>add_ursula\<close>: it does not return, and
  the treasure map has no entry where the claim has one.
\<close>

theorem enact_all_active_raises:
  "p_kfrags policy_active = [KFrag ''kf1'']
   \<and> p_active_contracts policy_active (KFrag ''kf1'') = Some contract1
   \<and> c_ursula contract1 = Some ursula1
   \<and> enact toy net_ok policy_active
       = (Inl (AttributeError ''add_ursula''), [],
          [(Some ursula1, hrac_for toy alice1 bob1 ''uri'',
            full_payload_for toy policy_active contract1)])"
  by code_simp

subsection \<open>Publication of the Treasure Map\<close>

text \<open>
  C6. On every PolicyGroup the class builds, whatever its treasure map holds,
  \<open>publish_treasure_map\<close> raises the AttributeError of \<open>self.hrac()\<close> and makes
  no call of \<open>set\<close>: the storage network is as it was, and nothing is stored under
  any key. So it is for Alice's group with the proxy U1 in its treasure map.
\<close>

theorem publish_treasure_map_raises_before_storing:
  "publish_treasure_map E ((PolicyGroup_init uri alice bob policies)\<lparr>pg_treasure_map := tm\<rparr>)
     server
     = (Inl (AttributeError ''hrac''), server)
   \<and> ids (pg_treasure_map group1) = [''id-U1'']
   \<and> publish_treasure_map toy group1 [] = (Inl (AttributeError ''hrac''), [])"
  by (simp add: publish_treasure_map_def PolicyGroup_init_def group1_def add_ursula_def
      TreasureMap_init_def toy_def toy_dht_key_def ursula1_def split: prod.splits)

subsection \<open>Work Order\<close>

lemma split_two:
  "length a = n \<Longrightarrow> length b = m \<Longrightarrow> BytestringSplitter [n, m] (a @ b @ r) = Inr ([a, b], r)"
  by (simp add: BytestringSplitter_def)

lemma pfrags_of_items_map:
  "pfrags_of_items (map (\<lambda>p. PyBytes (pfrag_bytes p)) ps) = Inr ps"
  by (induction ps) simp_all

text \<open>
  On a payload of the wire layout, parsing is decided by the verification alone.
\<close>

lemma from_rest_payload_wellformed:
  assumes "length sig = signature_length E" and "length pk = public_key_length E"
    and "msgpack_loads E rem = Inr (PyList [PyBytes r, PyBytes packed])"
    and "msgpack_loads E packed = Inr (PyList (map (\<lambda>p. PyBytes (pfrag_bytes p)) ps))"
  shows "from_rest_payload E h (sig @ pk @ rem) =
           (if signature_verify E sig r pk
            then Inr (WorkOrder_init (from_pubkey_sig_bytes pk) h ps r sig None)
            else Inl UnauthenticatedOrder)"
  using assms
  by (simp add: from_rest_payload_def split_two loads_packed_def pfrags_of_items_map)

lemma from_rest_payload_Inr:
  assumes "from_rest_payload E h rest = Inr wo"
  shows "signature_verify E (wo_receipt_signature wo) (wo_receipt_bytes wo) (seal_bytes (wo_bob wo))
       \<and> wo_receipt_signature wo = take (signature_length E) rest
       \<and> seal_bytes (wo_bob wo) = take (public_key_length E) (drop (signature_length E) rest)
       \<and> (\<exists>packed. msgpack_loads E (drop (signature_length E + public_key_length E) rest)
              = Inr (PyList [PyBytes (wo_receipt_bytes wo), packed]))"
  using assms
  apply (simp add: from_rest_payload_def BytestringSplitter_def
      split: if_splits sum.splits prod.splits list.splits py.splits)
  apply (auto simp: WorkOrder_init_def from_pubkey_sig_bytes_def add.commute
      elim!: unpack_pair.elims)
  done

lemma constructed_by_bob_roundtrip:
  assumes "length (seal_call E bob (''wo:'' @ key)) = signature_length E"
    and "length (seal_bytes bob) = public_key_length E"
    and "signature_verify E (seal_call E bob (''wo:'' @ key)) (''wo:'' @ key) (seal_bytes bob)"
    and "roundtrips E (PyList (map (\<lambda>p. PyBytes (pfrag_bytes p)) pfrags))"
    and "roundtrips E (PyList [PyBytes (''wo:'' @ key),
           PyBytes (msgpack_dumps E (PyList (map (\<lambda>p. PyBytes (pfrag_bytes p)) pfrags)))])"
  shows "from_rest_payload E h' (WorkOrder_payload E (constructed_by_bob E h pfrags key bob))
         = Inr (WorkOrder_init (from_pubkey_sig_bytes (seal_bytes bob)) h' pfrags (''wo:'' @ key)
                  (seal_call E bob (''wo:'' @ key)) None)"
proof -
  let ?r = "''wo:'' @ key"
  let ?sig = "seal_call E bob ?r"
  let ?packed = "msgpack_dumps E (PyList (map (\<lambda>p. PyBytes (pfrag_bytes p)) pfrags))"
  let ?rem = "msgpack_dumps E (PyList [PyBytes ?r, PyBytes ?packed])"
  have p: "WorkOrder_payload E (constructed_by_bob E h pfrags key bob)
             = ?sig @ seal_bytes bob @ ?rem"
    by (simp add: WorkOrder_payload_def constructed_by_bob_def WorkOrder_init_def Let_def)
  have l1: "msgpack_loads E ?rem = Inr (PyList [PyBytes ?r, PyBytes ?packed])"
    using assms(5) by (simp add: roundtrips_def)
  have l2: "msgpack_loads E ?packed = Inr (PyList (map (\<lambda>p. PyBytes (pfrag_bytes p)) pfrags))"
    using assms(4) by (simp add: roundtrips_def)
  show ?thesis
    unfolding p
    using from_rest_payload_wellformed [OF assms(1) assms(2) l1 l2, of h'] assms(3)
    by simp
qed

text \<open>
  C4. A Work Order that \<open>from_rest_payload\<close> returns has a receipt signature that
  verifies over its receipt bytes against the public key of its recipient, and these
  are the signature and the public key at the front of the payload and the receipt
  bytes of its remainder. On a payload of the wire layout whose signature does not
  verify over the receipt bytes against the public key it carries, parsing fails with
  UnauthenticatedOrder.
\<close>

theorem from_rest_payload_verifies_receipt:
  "(from_rest_payload E h rest = Inr wo \<longrightarrow>
      signature_verify E (wo_receipt_signature wo) (wo_receipt_bytes wo) (seal_bytes (wo_bob wo))
      \<and> wo_receipt_signature wo = take (signature_length E) rest
      \<and> seal_bytes (wo_bob wo) = take (public_key_length E) (drop (signature_length E) rest)
      \<and> (\<exists>packed. msgpack_loads E (drop (signature_length E + public_key_length E) rest)
             = Inr (PyList [PyBytes (wo_receipt_bytes wo), packed])))
   \<and> (length sig = signature_length E \<and> length pk = public_key_length E
       \<and> msgpack_loads E rem = Inr (PyList [PyBytes r, PyBytes packed_pfrags])
       \<and> msgpack_loads E packed_pfrags = Inr (PyList (map (\<lambda>p. PyBytes (pfrag_bytes p)) ps))
       \<and> \<not> signature_verify E sig r pk \<longrightarrow>
       from_rest_payload E h (sig @ pk @ rem) = Inl UnauthenticatedOrder)"
proof (rule conjI)
  show "from_rest_payload E h rest = Inr wo \<longrightarrow>
      signature_verify E (wo_receipt_signature wo) (wo_receipt_bytes wo) (seal_bytes (wo_bob wo))
      \<and> wo_receipt_signature wo = take (signature_length E) rest
      \<and> seal_bytes (wo_bob wo) = take (public_key_length E) (drop (signature_length E) rest)
      \<and> (\<exists>packed. msgpack_loads E (drop (signature_length E + public_key_length E) rest)
             = Inr (PyList [PyBytes (wo_receipt_bytes wo), packed]))"
    using from_rest_payload_Inr [of E h rest wo] by blast
next
  show "length sig = signature_length E \<and> length pk = public_key_length E
       \<and> msgpack_loads E rem = Inr (PyList [PyBytes r, PyBytes packed_pfrags])
       \<and> msgpack_loads E packed_pfrags = Inr (PyList (map (\<lambda>p. PyBytes (pfrag_bytes p)) ps))
       \<and> \<not> signature_verify E sig r pk \<longrightarrow>
       from_rest_payload E h (sig @ pk @ rem) = Inl UnauthenticatedOrder"
    using from_rest_payload_wellformed [of sig E pk rem r packed_pfrags ps h] by simp
qed

text \<open>
  Both hypotheses of C4 hold on the examples: Bob's order parses and its signature
  verifies; the payload with the signature \<open>XXXX\<close> has the wire layout, does not
  verify and is refused.
\<close>

theorem from_rest_payload_verifies_receipt_witness:
  "from_rest_payload toy ''h'' (WorkOrder_payload toy order_for_P)
     = Inr (order_for_P\<lparr>wo_ursula_id := None\<rparr>)
   \<and> signature_verify toy ''B1ye'' ''wo:P-key'' ''B1''
   \<and> \<not> signature_verify toy ''XXXX'' ''wo:P-key'' ''B1''
   \<and> from_rest_payload toy ''h'' forged_order_payload = Inl UnauthenticatedOrder"
proof -
  have p: "from_rest_payload toy ''h'' (WorkOrder_payload toy order_for_P)
             = Inr (order_for_P\<lparr>wo_ursula_id := None\<rparr>)"
    by code_simp
  have f: "wo_receipt_signature (order_for_P\<lparr>wo_ursula_id := None\<rparr>) = ''B1ye''
           \<and> wo_receipt_bytes (order_for_P\<lparr>wo_ursula_id := None\<rparr>) = ''wo:P-key''
           \<and> seal_bytes (wo_bob (order_for_P\<lparr>wo_ursula_id := None\<rparr>)) = ''B1''"
    by code_simp
  have q: "length ''XXXX'' = signature_length toy \<and> length ''B1'' = public_key_length toy
       \<and> msgpack_loads toy
           (toy_dumps (PyList [PyBytes ''wo:P-key'', PyBytes (toy_dumps (PyList [PyBytes ''p1'']))]))
           = Inr (PyList [PyBytes ''wo:P-key'', PyBytes (toy_dumps (PyList [PyBytes ''p1'']))])
       \<and> msgpack_loads toy (toy_dumps (PyList [PyBytes ''p1'']))
           = Inr (PyList (map (\<lambda>p. PyBytes (pfrag_bytes p)) [PFrag ''p1'']))
       \<and> \<not> signature_verify toy ''XXXX'' ''wo:P-key'' ''B1''"
    by code_simp
  note t1 = from_rest_payload_verifies_receipt
      [where E = toy and h = "''h''" and rest = "WorkOrder_payload toy order_for_P"
         and wo = "order_for_P\<lparr>wo_ursula_id := None\<rparr>"]
  note t2 = from_rest_payload_verifies_receipt
      [where E = toy and h = "''h''" and sig = "''XXXX''" and pk = "''B1''"
         and r = "''wo:P-key''" and ps = "[PFrag ''p1'']"
         and packed_pfrags = "toy_dumps (PyList [PyBytes ''p1''])"
         and rem = "toy_dumps (PyList [PyBytes ''wo:P-key'',
                                       PyBytes (toy_dumps (PyList [PyBytes ''p1'']))])"]
  from t1 p f have v: "signature_verify toy ''B1ye'' ''wo:P-key'' ''B1''"
    by metis
  from t2 q have "from_rest_payload toy ''h''
        (''XXXX'' @ ''B1'' @ toy_dumps (PyList [PyBytes ''wo:P-key'',
                                                PyBytes (toy_dumps (PyList [PyBytes ''p1'']))]))
      = Inl UnauthenticatedOrder"
    by blast
  then have w: "from_rest_payload toy ''h'' forged_order_payload = Inl UnauthenticatedOrder"
    by (simp add: forged_order_payload_def)
  show ?thesis using p v q w by simp
qed

text \<open>
  C5, as the claim states it, fails. Bob's order is for the proxy with key \<open>P-key\<close>.
  \<open>from_rest_payload\<close> takes the HRAC and the payload and no proxy: whichever proxy
  runs it, one with key \<open>Q-key\<close> too, it accepts the order and does not fail with
  UnauthenticatedOrder.
\<close>

theorem order_for_other_proxy_counterexample:
  "''Q-key'' \<noteq> ''P-key''
   \<and> wo_ursula_id order_for_P = Some ''P-key''
   \<and> from_rest_payload toy ''h'' (WorkOrder_payload toy order_for_P)
       = Inr (order_for_P\<lparr>wo_ursula_id := None\<rparr>)
   \<and> from_rest_payload toy ''h'' (WorkOrder_payload toy order_for_P) \<noteq> Inl UnauthenticatedOrder"
  by code_simp

text \<open>
  C5, amended. A Work Order constructed by a recipient for the proxy P, validly signed
  and serialized, is accepted by the parse, which has no proxy among its arguments and
  compares the receipt with no proxy key: it returns the order with its receipt
  bytes \<open>wo:\<close> and P's key and its signature, with the recipient resolved from the
  public key and with no proxy identifier, and not UnauthenticatedOrder.
\<close>

theorem from_rest_payload_accepts_whoever_parses:
  assumes "length (seal_call E bob (''wo:'' @ P_key)) = signature_length E"
    and "length (seal_bytes bob) = public_key_length E"
    and "signature_verify E (seal_call E bob (''wo:'' @ P_key)) (''wo:'' @ P_key) (seal_bytes bob)"
    and "roundtrips E (PyList (map (\<lambda>p. PyBytes (pfrag_bytes p)) pfrags))"
    and "roundtrips E (PyList [PyBytes (''wo:'' @ P_key),
           PyBytes (msgpack_dumps E (PyList (map (\<lambda>p. PyBytes (pfrag_bytes p)) pfrags)))])"
  shows "from_rest_payload E h (WorkOrder_payload E (constructed_by_bob E h pfrags P_key bob))
           = Inr ((constructed_by_bob E h pfrags P_key bob)
                    \<lparr>wo_bob := from_pubkey_sig_bytes (seal_bytes bob), wo_ursula_id := None\<rparr>)
         \<and> from_rest_payload E h (WorkOrder_payload E (constructed_by_bob E h pfrags P_key bob))
           \<noteq> Inl UnauthenticatedOrder"
  using constructed_by_bob_roundtrip [OF assms, of h h]
  by (simp add: constructed_by_bob_def WorkOrder_init_def Let_def)

text \<open>
  The hypotheses of the amended C5 hold for Bob's order for \<open>P-key\<close> with the
  collaborators \<open>toy\<close>.
\<close>

theorem from_rest_payload_accepts_whoever_parses_witness:
  "length (seal_call toy bob1 (''wo:'' @ ''P-key'')) = signature_length toy
   \<and> length (seal_bytes bob1) = public_key_length toy
   \<and> signature_verify toy (seal_call toy bob1 (''wo:'' @ ''P-key'')) (''wo:'' @ ''P-key'')
       (seal_bytes bob1)
   \<and> roundtrips toy (PyList (map (\<lambda>p. PyBytes (pfrag_bytes p)) [PFrag ''p1'', PFrag ''p2'']))
   \<and> from_rest_payload toy ''h'' (WorkOrder_payload toy order_for_P)
       = Inr (order_for_P\<lparr>wo_bob := from_pubkey_sig_bytes (seal_bytes bob1),
                          wo_ursula_id := None\<rparr>)"
proof -
  have a1: "length (seal_call toy bob1 (''wo:'' @ ''P-key'')) = signature_length toy"
    by code_simp
  have a2: "length (seal_bytes bob1) = public_key_length toy"
    by code_simp
  have a3: "signature_verify toy (seal_call toy bob1 (''wo:'' @ ''P-key'')) (''wo:'' @ ''P-key'')
              (seal_bytes bob1)"
    by code_simp
  have a4: "roundtrips toy (PyList (map (\<lambda>p. PyBytes (pfrag_bytes p)) [PFrag ''p1'', PFrag ''p2'']))"
    by code_simp
  have a5: "roundtrips toy (PyList [PyBytes (''wo:'' @ ''P-key''),
              PyBytes (msgpack_dumps toy
                (PyList (map (\<lambda>p. PyBytes (pfrag_bytes p)) [PFrag ''p1'', PFrag ''p2''])))])"
    by code_simp
  show ?thesis
    using from_rest_payload_accepts_whoever_parses [OF a1 a2 a3 a4 a5, of "''h''"] a1 a2 a3 a4
    unfolding order_for_P_def [symmetric]
    by simp
qed

text \<open>
  C8. For a Work Order constructed by a recipient whose signature has the signature
  width and verifies, whose public key has the key width, and whose two msgpack
  values are given back by msgpack, parsing the serialized order succeeds and returns
  a Work Order with the same receipt bytes, receipt signature, recipient public key
  and ciphertext fragment bytes.
\<close>

theorem payload_then_from_rest_payload:
  assumes "length (seal_call E bob (''wo:'' @ key)) = signature_length E"
    and "length (seal_bytes bob) = public_key_length E"
    and "signature_verify E (seal_call E bob (''wo:'' @ key)) (''wo:'' @ key) (seal_bytes bob)"
    and "roundtrips E (PyList (map (\<lambda>p. PyBytes (pfrag_bytes p)) pfrags))"
    and "roundtrips E (PyList [PyBytes (''wo:'' @ key),
           PyBytes (msgpack_dumps E (PyList (map (\<lambda>p. PyBytes (pfrag_bytes p)) pfrags)))])"
  shows "\<exists>parsed. from_rest_payload E h (WorkOrder_payload E (constructed_by_bob E h pfrags key bob))
                    = Inr parsed
           \<and> wo_receipt_bytes parsed = wo_receipt_bytes (constructed_by_bob E h pfrags key bob)
           \<and> wo_receipt_signature parsed
               = wo_receipt_signature (constructed_by_bob E h pfrags key bob)
           \<and> seal_bytes (wo_bob parsed) = seal_bytes (wo_bob (constructed_by_bob E h pfrags key bob))
           \<and> map pfrag_bytes (wo_pfrags parsed)
               = map pfrag_bytes (wo_pfrags (constructed_by_bob E h pfrags key bob))
           \<and> wo_kfrag_hrac parsed = h"
  using constructed_by_bob_roundtrip [OF assms, of h h]
  by (simp add: constructed_by_bob_def WorkOrder_init_def from_pubkey_sig_bytes_def Let_def)

text \<open>
  The hypotheses of C8 hold for Bob's order with the collaborators \<open>toy\<close>, and the
  parsed order has the receipt, signature, public key and fragments of the order.
\<close>

theorem payload_then_from_rest_payload_witness:
  "length (seal_call toy bob1 (''wo:'' @ ''P-key'')) = signature_length toy
   \<and> length (seal_bytes bob1) = public_key_length toy
   \<and> signature_verify toy (seal_call toy bob1 (''wo:'' @ ''P-key'')) (''wo:'' @ ''P-key'')
       (seal_bytes bob1)
   \<and> (\<exists>parsed. from_rest_payload toy ''h'' (WorkOrder_payload toy order_for_P) = Inr parsed
         \<and> wo_receipt_bytes parsed = ''wo:P-key''
         \<and> wo_receipt_signature parsed = ''B1ye''
         \<and> seal_bytes (wo_bob parsed) = ''B1''
         \<and> map pfrag_bytes (wo_pfrags parsed) = [''p1'', ''p2''])"
proof -
  have a1: "length (seal_call toy bob1 (''wo:'' @ ''P-key'')) = signature_length toy"
    by code_simp
  have a2: "length (seal_bytes bob1) = public_key_length toy"
    by code_simp
  have a3: "signature_verify toy (seal_call toy bob1 (''wo:'' @ ''P-key'')) (''wo:'' @ ''P-key'')
              (seal_bytes bob1)"
    by code_simp
  have a4: "roundtrips toy (PyList (map (\<lambda>p. PyBytes (pfrag_bytes p)) [PFrag ''p1'', PFrag ''p2'']))"
    by code_simp
  have a5: "roundtrips toy (PyList [PyBytes (''wo:'' @ ''P-key''),
              PyBytes (msgpack_dumps toy
                (PyList (map (\<lambda>p. PyBytes (pfrag_bytes p)) [PFrag ''p1'', PFrag ''p2''])))])"
    by code_simp
  have c: "wo_receipt_bytes order_for_P = ''wo:P-key''
           \<and> wo_receipt_signature order_for_P = ''B1ye''
           \<and> seal_bytes (wo_bob order_for_P) = ''B1''
           \<and> map pfrag_bytes (wo_pfrags order_for_P) = [''p1'', ''p2'']"
    by code_simp
  show ?thesis
    using payload_then_from_rest_payload [OF a1 a2 a3 a4 a5, of "''h''"] a1 a2 a3 c
    unfolding order_for_P_def [symmetric]
    by auto
qed

text \<open>
  C10. Equality of two Work Orders is the equality of their receipt bytes and receipt
  signatures: whatever the recipients, HRACs, ciphertext fragments and proxy
  identifiers of the two are, they are equal exactly when both receipt fields agree.
\<close>

theorem WorkOrder_eq_only_receipt:
  "WorkOrder_eq (WorkOrder_init bob h ps r s u) (WorkOrder_init bob' h' ps' r' s' u')
     = (r = r' \<and> s = s')"
  by (simp add: WorkOrder_eq_def WorkOrder_init_def)

end
